theory Spec2Isabelle
  imports Main
begin

section \<open>Runtime values\<close>

text \<open>
  The guards of \<^verbatim>\<open>interfaceTS.ts\<close> take a parameter of type \<^verbatim>\<open>any\<close> or
  \<^verbatim>\<open>unknown\<close>, so the model starts from the values the language has at run time.
  Objects, arrays and functions are reached through a reference into an object store;
  the other values are primitives. The code never looks inside a number, so the payload
  of a number is a type parameter.

  The properties of an object are data properties: \<open>props\<close> maps a name to the value
  that reading the name yields (own and inherited properties alike), and a name that is
  not mapped reads as \<^verbatim>\<open>undefined\<close>. The guards are evaluated over such objects
  first. Accessor properties and proxies, which run code on a read, are added in the
  section on reads that run code, for the claims that depend on them.
\<close>

type_synonym addr = nat

datatype 'n jsval =
    Undefined
  | Null
  | Boolean bool
  | Number 'n
  | Str string
  | BigInt int
  | Symbol nat
  | Ref addr

datatype objclass = Plain | Array | Function

record 'n jsobj =
  cls :: objclass
  props :: "string \<rightharpoonup> 'n jsval"

datatype error = TypeError

text \<open>
  The state an evaluation runs in: the object store, and the two services of the
  runtime that the source relies on without defining them, namely what a property read
  on a primitive other than \<^verbatim>\<open>null\<close> and \<^verbatim>\<open>undefined\<close> yields (through its
  wrapper prototype), and the text a template literal substitutes for a number, a
  bigint or an object.
\<close>

record 'n world =
  heap :: "addr \<Rightarrow> 'n jsobj"
  boxed :: "'n jsval \<Rightarrow> string \<Rightarrow> 'n jsval"
  text_of :: "'n jsval \<Rightarrow> error + string"

type_synonym ('n, 'a) eval = "'n world \<Rightarrow> (error + 'a) \<times> 'n world"

section \<open>The operators the guards are built from\<close>

text \<open>
  \<^verbatim>\<open>typeof v\<close>. Note \<^verbatim>\<open>typeof null === "object"\<close>, and an array is an object.
  The operators that do not read a property are stated for every state that extends the
  store and for every type of fault, so that both sections use them.
\<close>

fun typeof :: "('n, 'z) world_scheme \<Rightarrow> 'n jsval \<Rightarrow> string" where
  "typeof w Undefined = ''undefined''"
| "typeof w Null = ''object''"
| "typeof w (Boolean b) = ''boolean''"
| "typeof w (Number n) = ''number''"
| "typeof w (Str s) = ''string''"
| "typeof w (BigInt i) = ''bigint''"
| "typeof w (Symbol k) = ''symbol''"
| "typeof w (Ref a) = (if cls (heap w a) = Function then ''function'' else ''object'')"

text \<open>
  \<^verbatim>\<open>obj.f\<close> over data properties: a fault on \<^verbatim>\<open>null\<close> and \<^verbatim>\<open>undefined\<close>,
  a read otherwise. (\<open>member_acc\<close> below is the read that also runs getters.)
\<close>

fun member :: "'n jsval \<Rightarrow> string \<Rightarrow> ('n, 'n jsval) eval" where
  "member Undefined f w = (Inl TypeError, w)"
| "member Null f w = (Inl TypeError, w)"
| "member (Ref a) f w =
     (Inr (case props (heap w a) f of None \<Rightarrow> Undefined | Some x \<Rightarrow> x), w)"
| "member v f w = (Inr (boxed w v f), w)"

text \<open>
  \<^verbatim>\<open>"f" in obj\<close> over data properties: a fault when the right operand is not an
  object. (\<open>has_property_acc\<close> below is the test that also runs the trap of a proxy.)
\<close>

fun has_property :: "string \<Rightarrow> 'n jsval \<Rightarrow> ('n, bool) eval" where
  "has_property f (Ref a) w = (Inr (props (heap w a) f \<noteq> None), w)"
| "has_property f v w = (Inl TypeError, w)"

text \<open>\<^verbatim>\<open>typeof v === k\<close>, \<^verbatim>\<open>v !== null\<close> and \<^verbatim>\<open>typeof obj.f === k\<close>.\<close>

definition typeof_is ::
    "'n jsval \<Rightarrow> string \<Rightarrow> ('n, 'z) world_scheme \<Rightarrow> ('e + bool) \<times> ('n, 'z) world_scheme" where
  "typeof_is v k w = (Inr (typeof w v = k), w)"

definition not_null :: "'n jsval \<Rightarrow> 's \<Rightarrow> ('e + bool) \<times> 's" where
  "not_null v w = (Inr (v \<noteq> Null), w)"

definition typeof_member_is :: "'n jsval \<Rightarrow> string \<Rightarrow> string \<Rightarrow> ('n, bool) eval" where
  "typeof_member_is obj f k w =
     (case member obj f w of
        (Inl e, w') \<Rightarrow> (Inl e, w')
      | (Inr x, w') \<Rightarrow> typeof_is x k w')"

text \<open>
  \<^verbatim>\<open>p && q\<close> on boolean operands: the right operand is evaluated only when the left
  one yields \<^verbatim>\<open>true\<close>.
\<close>

definition and_then ::
    "('s \<Rightarrow> ('e + bool) \<times> 's) \<Rightarrow> ('s \<Rightarrow> ('e + bool) \<times> 's) \<Rightarrow> 's \<Rightarrow> ('e + bool) \<times> 's" where
  "and_then p q w =
     (case p w of
        (Inl e, w') \<Rightarrow> (Inl e, w')
      | (Inr b, w') \<Rightarrow> if b then q w' else (Inr False, w'))"

section \<open>The guards\<close>

text \<open>\<^verbatim>\<open>function order(obj: any): obj is UserOrder\<close>, the exported copy.\<close>

definition order :: "'n jsval \<Rightarrow> ('n, bool) eval" where
  "order obj =
     and_then (and_then (and_then (and_then (and_then (and_then
       (typeof_is obj ''object'')
       (not_null obj))
       (typeof_member_is obj ''type'' ''string''))
       (typeof_member_is obj ''id'' ''string''))
       (typeof_member_is obj ''delivery'' ''string''))
       (typeof_member_is obj ''price'' ''number''))
       (typeof_member_is obj ''quantity'' ''number'')"

text \<open>The second \<^verbatim>\<open>order\<close>, of the trailing copy of the file.\<close>

definition order_dup :: "'n jsval \<Rightarrow> ('n, bool) eval" where
  "order_dup obj =
     and_then (and_then (and_then (and_then
       (typeof_is obj ''object'')
       (not_null obj))
       (typeof_member_is obj ''type'' ''string''))
       (typeof_member_is obj ''id'' ''number''))
       (typeof_member_is obj ''delivery'' ''string'')"

text \<open>\<^verbatim>\<open>function isUser(obj: unknown): obj is User\<close>.\<close>

definition isUser :: "'n jsval \<Rightarrow> ('n, bool) eval" where
  "isUser obj =
     and_then (and_then (and_then (and_then (and_then (and_then (and_then
       (typeof_is obj ''object'')
       (not_null obj))
       (has_property ''name'' obj))
       (typeof_member_is obj ''name'' ''string''))
       (has_property ''email'' obj))
       (typeof_member_is obj ''email'' ''string''))
       (has_property ''age'' obj))
       (typeof_member_is obj ''age'' ''number'')"

section \<open>What a guard accepts\<close>

text \<open>The field \<open>f\<close> of the object at \<open>a\<close> is present and its value has kind \<open>k\<close>.\<close>

definition field_kind :: "('n, 'z) world_scheme \<Rightarrow> addr \<Rightarrow> string \<times> string \<Rightarrow> bool" where
  "field_kind w a fk =
     (case props (heap w a) (fst fk) of
        None \<Rightarrow> False
      | Some x \<Rightarrow> typeof w x = snd fk)"

text \<open>The declared shapes: \<^verbatim>\<open>type UserOrder\<close> and \<^verbatim>\<open>interface User\<close>.\<close>

definition UserOrder :: "(string \<times> string) list" where
  "UserOrder =
     [(''id'', ''string''), (''type'', ''string''), (''price'', ''number''),
      (''quantity'', ''number''), (''delivery'', ''string'')]"

definition User :: "(string \<times> string) list" where
  "User = [(''name'', ''string''), (''email'', ''string''), (''age'', ''number'')]"

text \<open>
  A value conforms to a shape when it refers to an object that is not a function and
  every field of the shape is present with the declared kind.
\<close>

fun conforms :: "('n, 'z) world_scheme \<Rightarrow> 'n jsval \<Rightarrow> (string \<times> string) list \<Rightarrow> bool" where
  "conforms w (Ref a) shape =
     (cls (heap w a) \<noteq> Function \<and> list_all (field_kind w a) shape)"
| "conforms w v shape = False"


section \<open>The caller of the guard\<close>









section \<open>The two \<^verbatim>\<open>isString\<close>\<close>

text \<open>\<^verbatim>\<open>function isString(str: unknown): str is string\<close>, the exported copy.\<close>

definition isString :: "'n jsval \<Rightarrow> ('n, bool) eval" where
  "isString str = typeof_is str ''string''"

text \<open>
  The \<^verbatim>\<open>isString\<close> of the trailing copy: \<^verbatim>\<open>return isString(str);\<close>. A call that
  does not return is the value \<open>None\<close>.
\<close>

partial_function (option) isString_dup ::
    "'n jsval \<Rightarrow> 'n world \<Rightarrow> ((error + bool) \<times> 'n world) option" where
  "isString_dup str w = isString_dup str w"

section \<open>Inputs\<close>

text \<open>Adding the field \<open>f\<close>, with the value \<open>x\<close>, to the object at \<open>a\<close>.\<close>

definition add_field ::
    "('n, 'z) world_scheme \<Rightarrow> addr \<Rightarrow> string \<Rightarrow> 'n jsval \<Rightarrow> ('n, 'z) world_scheme" where
  "add_field w a f x =
     w\<lparr>heap := (heap w)(a := (heap w a)\<lparr>props := (props (heap w a))(f \<mapsto> x)\<rparr>)\<rparr>"

text \<open>The names the exported \<^verbatim>\<open>order\<close> reads.\<close>

definition required :: "string list" where
  "required = [''type'', ''id'', ''delivery'', ''price'', ''quantity'']"

text \<open>
  A store with one object of interest, at address 0; every other address holds an empty
  object. The runtime services are fixed arbitrarily: no example below reaches them.
\<close>

definition world_with :: "objclass \<Rightarrow> (string \<rightharpoonup> int jsval) \<Rightarrow> int world" where
  "world_with c m =
     \<lparr>heap = (\<lambda>a. if a = 0 then \<lparr>cls = c, props = m\<rparr> else \<lparr>cls = Plain, props = Map.empty\<rparr>),
      boxed = (\<lambda>v f. Undefined),
      text_of = (\<lambda>v. Inr ''[object Object]'')\<rparr>"

text \<open>
  The records of the specification's concrete scenario (section 8, item 6):
  \<^verbatim>\<open>{id:"123", type:"express", price:100, quantity:1, delivery:"fast"}\<close>,
  \<^verbatim>\<open>{id:"123", type:"express"}\<close>, and the first one with \<^verbatim>\<open>id: 123\<close>.
\<close>

definition full_order :: "string \<rightharpoonup> int jsval" where
  "full_order =
     [''id'' \<mapsto> Str ''123'', ''type'' \<mapsto> Str ''express'', ''price'' \<mapsto> Number 100,
      ''quantity'' \<mapsto> Number 1, ''delivery'' \<mapsto> Str ''fast'']"


definition numeric_id_order :: "string \<rightharpoonup> int jsval" where
  "numeric_id_order = full_order(''id'' \<mapsto> Number 123)"


text \<open>\<^verbatim>\<open>{name: "Ann", email: "ann@example.org", age: 30}\<close>.\<close>

definition full_user :: "string \<rightharpoonup> int jsval" where
  "full_user =
     [''name'' \<mapsto> Str ''Ann'', ''email'' \<mapsto> Str ''ann@example.org'', ''age'' \<mapsto> Number 30]"

section \<open>Reads that run code\<close>

text \<open>
  The parameter of the guards has the type \<^verbatim>\<open>any\<close> or \<^verbatim>\<open>unknown\<close>, so the
  candidate may also be an object with accessor properties, or a proxy. A read of an
  accessor property runs its getter; a proxy runs a trap on a read and on an
  \<^verbatim>\<open>in\<close> test, and a revoked proxy faults on both. Such code is modelled by its
  effect: the data properties it sets, in order, and then the value it returns or the
  exception it throws.
\<close>

datatype 'n raised = Fault error | Thrown "'n jsval"

record ('n, 'r) effect =
  writes :: "(addr \<times> string \<times> 'n jsval) list"
  outcome :: "'n raised + 'r"

text \<open>
  The state, extended with the code of the objects: for an object and a name, the code
  that a read of the name runs (none when the name is a data property or is absent),
  and the code that an \<^verbatim>\<open>in\<close> test of the name runs (none unless the object is a
  proxy).
\<close>

record 'n aworld = "'n world" +
  getters :: "addr \<Rightarrow> string \<rightharpoonup> ('n, 'n jsval) effect"
  has_traps :: "addr \<Rightarrow> string \<rightharpoonup> ('n, bool) effect"

definition run :: "('n, 'r) effect \<Rightarrow> 'n aworld \<Rightarrow> ('n raised + 'r) \<times> 'n aworld" where
  "run e w = (outcome e, fold (\<lambda>(a, f, x) w'. add_field w' a f x) (writes e) w)"

text \<open>\<^verbatim>\<open>obj.f\<close> and \<^verbatim>\<open>"f" in obj\<close> over such objects.\<close>

fun member_acc ::
    "'n jsval \<Rightarrow> string \<Rightarrow> 'n aworld \<Rightarrow> ('n raised + 'n jsval) \<times> 'n aworld" where
  "member_acc Undefined f w = (Inl (Fault TypeError), w)"
| "member_acc Null f w = (Inl (Fault TypeError), w)"
| "member_acc (Ref a) f w =
     (case getters w a f of
        Some g \<Rightarrow> run g w
      | None \<Rightarrow> (Inr (case props (heap w a) f of None \<Rightarrow> Undefined | Some x \<Rightarrow> x), w))"
| "member_acc v f w = (Inr (boxed w v f), w)"

fun has_property_acc ::
    "string \<Rightarrow> 'n jsval \<Rightarrow> 'n aworld \<Rightarrow> ('n raised + bool) \<times> 'n aworld" where
  "has_property_acc f (Ref a) w =
     (case has_traps w a f of
        Some t \<Rightarrow> run t w
      | None \<Rightarrow> (Inr (props (heap w a) f \<noteq> None \<or> getters w a f \<noteq> None), w))"
| "has_property_acc f v w = (Inl (Fault TypeError), w)"

definition typeof_member_is_acc ::
    "'n jsval \<Rightarrow> string \<Rightarrow> string \<Rightarrow> 'n aworld \<Rightarrow> ('n raised + bool) \<times> 'n aworld" where
  "typeof_member_is_acc obj f k w =
     (case member_acc obj f w of
        (Inl e, w') \<Rightarrow> (Inl e, w')
      | (Inr x, w') \<Rightarrow> typeof_is x k w')"

text \<open>The exported \<^verbatim>\<open>order\<close> and \<^verbatim>\<open>isUser\<close>, test for test, over these reads.\<close>

definition order_acc :: "'n jsval \<Rightarrow> 'n aworld \<Rightarrow> ('n raised + bool) \<times> 'n aworld" where
  "order_acc obj =
     and_then (and_then (and_then (and_then (and_then (and_then
       (typeof_is obj ''object'')
       (not_null obj))
       (typeof_member_is_acc obj ''type'' ''string''))
       (typeof_member_is_acc obj ''id'' ''string''))
       (typeof_member_is_acc obj ''delivery'' ''string''))
       (typeof_member_is_acc obj ''price'' ''number''))
       (typeof_member_is_acc obj ''quantity'' ''number'')"

definition isUser_acc :: "'n jsval \<Rightarrow> 'n aworld \<Rightarrow> ('n raised + bool) \<times> 'n aworld" where
  "isUser_acc obj =
     and_then (and_then (and_then (and_then (and_then (and_then (and_then
       (typeof_is obj ''object'')
       (not_null obj))
       (has_property_acc ''name'' obj))
       (typeof_member_is_acc obj ''name'' ''string''))
       (has_property_acc ''email'' obj))
       (typeof_member_is_acc obj ''email'' ''string''))
       (has_property_acc ''age'' obj))
       (typeof_member_is_acc obj ''age'' ''number'')"

text \<open>The names \<^verbatim>\<open>isUser\<close> reads and tests.\<close>

definition user_fields :: "string list" where
  "user_fields = [''name'', ''email'', ''age'']"

text \<open>
  On the candidate, a read of the names \<open>fs\<close> runs no getter, and an \<^verbatim>\<open>in\<close> test
  of them runs no trap. (A candidate that is not an object has neither.)
\<close>

fun no_getters :: "'n aworld \<Rightarrow> 'n jsval \<Rightarrow> string list \<Rightarrow> bool" where
  "no_getters w (Ref a) fs = list_all (\<lambda>f. getters w a f = None) fs"
| "no_getters w v fs = True"

fun no_traps :: "'n aworld \<Rightarrow> 'n jsval \<Rightarrow> string list \<Rightarrow> bool" where
  "no_traps w (Ref a) fs = list_all (\<lambda>f. has_traps w a f = None) fs"
| "no_traps w v fs = True"

text \<open>A store whose object at address 0 has the getters \<open>g\<close>; nothing is a proxy.\<close>

definition with_getters ::
    "int world \<Rightarrow> (string \<rightharpoonup> (int, int jsval) effect) \<Rightarrow> int aworld" where
  "with_getters w g =
     \<lparr>heap = heap w, boxed = boxed w, text_of = text_of w,
      getters = (\<lambda>a. if a = 0 then g else Map.empty),
      has_traps = (\<lambda>a. Map.empty)\<rparr>"

text \<open>
  \<^verbatim>\<open>{id:"123", get type() { throw 1 }, price:100, quantity:1, delivery:"fast"}\<close>
\<close>

definition throwing_order :: "int aworld" where
  "throwing_order =
     with_getters (world_with Plain (full_order(''type'' := None)))
       [''type'' \<mapsto> \<lparr>writes = [], outcome = Inl (Thrown (Number 1))\<rparr>]"

text \<open>
  \<^verbatim>\<open>{id:"123", get type() { this.id = 5; return "express" }, price:100, quantity:1,
  delivery:"fast"}\<close>
\<close>

definition writing_order :: "int aworld" where
  "writing_order =
     with_getters (world_with Plain (full_order(''type'' := None)))
       [''type'' \<mapsto> \<lparr>writes = [(0, ''id'', Number 5)], outcome = Inr (Str ''express'')\<rparr>]"

text \<open>
  The record of the scenario with one accessor more, under a name the guard does not
  read: \<^verbatim>\<open>get note() { this.id = 5; throw 1 }\<close>.
\<close>

definition noted_order :: "int aworld" where
  "noted_order =
     with_getters (world_with Plain full_order)
       [''note'' \<mapsto> \<lparr>writes = [(0, ''id'', Number 5)], outcome = Inl (Thrown (Number 1))\<rparr>]"

text \<open>\<^verbatim>\<open>{name: "Ann", email: "ann@example.org", age: 30}\<close>, with no code.\<close>

definition plain_user :: "int aworld" where
  "plain_user = with_getters (world_with Plain full_user) Map.empty"

section \<open>Evaluation of the guards\<close>

lemma order_eval: "order obj w = (Inr (conforms w obj UserOrder), w)"
  by (cases obj)
     (auto simp: order_def and_then_def typeof_is_def not_null_def typeof_member_is_def
        UserOrder_def field_kind_def split: option.splits)

lemma order_dup_eval:
  "order_dup obj w =
     (Inr (conforms w obj [(''type'', ''string''), (''id'', ''number''), (''delivery'', ''string'')]), w)"
  by (cases obj)
     (auto simp: order_dup_def and_then_def typeof_is_def not_null_def typeof_member_is_def
        field_kind_def split: option.splits)

lemma isUser_eval: "isUser obj w = (Inr (conforms w obj User), w)"
  by (cases obj)
     (auto simp: isUser_def and_then_def typeof_is_def not_null_def typeof_member_is_def
        User_def field_kind_def split: option.splits)

section \<open>Auxiliary facts\<close>






lemma order_acc_eval:
  "no_getters w obj required \<Longrightarrow> order_acc obj w = (Inr (conforms w obj UserOrder), w)"
  by (cases obj)
     (auto simp: order_acc_def and_then_def typeof_is_def not_null_def typeof_member_is_acc_def
        required_def UserOrder_def field_kind_def split: option.splits)

lemma isUser_acc_eval:
  "no_getters w obj user_fields \<Longrightarrow> no_traps w obj user_fields \<Longrightarrow>
     isUser_acc obj w = (Inr (conforms w obj User), w)"
  by (cases obj)
     (auto simp: isUser_acc_def and_then_def typeof_is_def not_null_def typeof_member_is_acc_def
        user_fields_def User_def field_kind_def split: option.splits)

text \<open>
  Where no getter is run, the guard over reads that run code is the guard over data
  properties, on the store alone.
\<close>

lemma typeof_truncate: "typeof (world.truncate w) v = typeof w v"
  by (cases v) (auto simp: world.truncate_def)

lemma field_kind_truncate: "field_kind (world.truncate w) a fk = field_kind w a fk"
  by (simp add: field_kind_def typeof_truncate split: option.splits)
     (simp add: world.truncate_def)

lemma heap_truncate: "heap (world.truncate w) = heap w"
  by (simp add: world.truncate_def)

lemma conforms_truncate: "conforms (world.truncate w) obj shape = conforms w obj shape"
proof -
  have "field_kind (world.truncate w) a = field_kind w a" for a
    by (rule ext) (rule field_kind_truncate)
  then show ?thesis
    by (cases obj) (simp_all add: heap_truncate)
qed

lemma order_acc_agrees:
  "no_getters w obj required \<Longrightarrow>
     fst (order_acc obj w) = map_sum Fault id (fst (order obj (world.truncate w)))"
  by (simp add: order_acc_eval order_eval conforms_truncate)

text \<open>The code of the objects is not changed by running it, and a fault of a read is
  the exception of the getter it ran.\<close>

lemma getters_run: "getters (snd (run g w)) = getters w"
proof -
  have "getters (fold (\<lambda>(a, f, x) w'. add_field w' a f x) ws w) = getters w" for ws
    by (induction ws arbitrary: w) (auto simp: add_field_def)
  then show ?thesis by (simp add: run_def)
qed

lemma step_getters: "getters (snd (typeof_member_is_acc obj f k w)) = getters w"
  by (cases obj)
     (auto simp: typeof_member_is_acc_def typeof_is_def getters_run
        split: option.splits prod.splits sum.splits,
      (metis getters_run snd_conv)+)

lemma step_fault:
  "typeof_member_is_acc (Ref a) f k w = (Inl e, w') \<Longrightarrow>
     \<exists>g. getters w a f = Some g \<and> outcome g = Inl e"
  by (auto simp: typeof_member_is_acc_def typeof_is_def run_def
        split: option.splits prod.splits sum.splits)

lemma and_then_fault:
  "and_then p q w = (Inl e, w') \<Longrightarrow>
     p w = (Inl e, w') \<or> (\<exists>w1. p w = (Inr True, w1) \<and> q w1 = (Inl e, w'))"
  by (auto simp: and_then_def split: prod.splits sum.splits if_splits)

lemma and_then_getters:
  "(\<And>w. getters (snd (p w)) = getters w) \<Longrightarrow> (\<And>w. getters (snd (q w)) = getters w) \<Longrightarrow>
     getters (snd (and_then p q w)) = getters w"
  by (auto simp: and_then_def split: prod.splits sum.splits if_splits) (metis snd_conv)+

lemma chain_fault:
  assumes p: "\<And>w e w'. p w = (Inl e, w') \<Longrightarrow>
                \<exists>f g. f \<in> F \<and> getters w a f = Some g \<and> outcome g = Inl e"
    and g: "\<And>w. getters (snd (p w)) = getters w"
    and r: "and_then p (typeof_member_is_acc (Ref a) f k) w = (Inl e, w')"
  shows "\<exists>f' g. f' \<in> insert f F \<and> getters w a f' = Some g \<and> outcome g = Inl e"
proof -
  from and_then_fault [OF r] show ?thesis
  proof
    assume "p w = (Inl e, w')"
    from p [OF this] show ?thesis by blast
  next
    assume "\<exists>w1. p w = (Inr True, w1) \<and> typeof_member_is_acc (Ref a) f k w1 = (Inl e, w')"
    then obtain w1 where w1: "p w = (Inr True, w1)"
      and s: "typeof_member_is_acc (Ref a) f k w1 = (Inl e, w')"
      by blast
    from step_fault [OF s] obtain h where h: "getters w1 a f = Some h" "outcome h = Inl e"
      by blast
    from g [of w] w1 have "getters w1 = getters w" by simp
    with h show ?thesis by auto
  qed
qed

lemma order_acc_fault:
  assumes "fst (order_acc obj w) = Inl e"
  shows "\<exists>a f g. obj = Ref a \<and> f \<in> set required \<and> getters w a f = Some g \<and> outcome g = Inl e"
proof (cases obj)
  case (Ref a)
  define c0 :: "'a aworld \<Rightarrow> ('a raised + bool) \<times> 'a aworld"
    where "c0 = and_then (typeof_is obj ''object'') (not_null obj)"
  define c1 where "c1 = and_then c0 (typeof_member_is_acc (Ref a) ''type'' ''string'')"
  define c2 where "c2 = and_then c1 (typeof_member_is_acc (Ref a) ''id'' ''string'')"
  define c3 where "c3 = and_then c2 (typeof_member_is_acc (Ref a) ''delivery'' ''string'')"
  define c4 where "c4 = and_then c3 (typeof_member_is_acc (Ref a) ''price'' ''number'')"
  define c5 where "c5 = and_then c4 (typeof_member_is_acc (Ref a) ''quantity'' ''number'')"
  have o: "order_acc obj = c5"
    by (simp add: order_acc_def c0_def c1_def c2_def c3_def c4_def c5_def Ref)
  have v0: "\<exists>b. c0 u = (Inr b, u)" for u
    by (auto simp: c0_def and_then_def typeof_is_def not_null_def)
  have f0: "c0 u = (Inl x, u') \<Longrightarrow>
              \<exists>f g. f \<in> {} \<and> getters u a f = Some g \<and> outcome g = Inl x" for u x u'
    using v0 [of u] by auto
  have g0: "getters (snd (c0 u)) = getters u" for u
    using v0 [of u] by auto
  have f1: "\<exists>f g. f \<in> {''type''} \<and> getters u a f = Some g \<and> outcome g = Inl x"
    if "c1 u = (Inl x, u')" for u x u'
    by (rule chain_fault [where p = c0 and F = "{}" and k = "''string''" and w' = u'])
       (rule f0, assumption, rule g0, rule that [unfolded c1_def])
  have g1: "getters (snd (c1 u)) = getters u" for u
    unfolding c1_def by (rule and_then_getters) (rule g0 step_getters)+
  have f2: "\<exists>f g. f \<in> {''id'', ''type''} \<and> getters u a f = Some g \<and> outcome g = Inl x"
    if "c2 u = (Inl x, u')" for u x u'
    by (rule chain_fault [where p = c1 and F = "{''type''}" and k = "''string''" and w' = u'])
       (rule f1, assumption, rule g1, rule that [unfolded c2_def])
  have g2: "getters (snd (c2 u)) = getters u" for u
    unfolding c2_def by (rule and_then_getters) (rule g1 step_getters)+
  have f3: "\<exists>f g. f \<in> {''delivery'', ''id'', ''type''} \<and> getters u a f = Some g \<and> outcome g = Inl x"
    if "c3 u = (Inl x, u')" for u x u'
    by (rule chain_fault [where p = c2 and F = "{''id'', ''type''}" and k = "''string''" and w' = u'])
       (rule f2, assumption, rule g2, rule that [unfolded c3_def])
  have g3: "getters (snd (c3 u)) = getters u" for u
    unfolding c3_def by (rule and_then_getters) (rule g2 step_getters)+
  have f4: "\<exists>f g. f \<in> {''price'', ''delivery'', ''id'', ''type''} \<and> getters u a f = Some g \<and> outcome g = Inl x"
    if "c4 u = (Inl x, u')" for u x u'
    by (rule chain_fault [where p = c3 and F = "{''delivery'', ''id'', ''type''}" and k = "''number''" and w' = u'])
       (rule f3, assumption, rule g3, rule that [unfolded c4_def])
  have g4: "getters (snd (c4 u)) = getters u" for u
    unfolding c4_def by (rule and_then_getters) (rule g3 step_getters)+
  have f5: "\<exists>f g. f \<in> {''quantity'', ''price'', ''delivery'', ''id'', ''type''} \<and> getters u a f = Some g \<and> outcome g = Inl x"
    if "c5 u = (Inl x, u')" for u x u'
    by (rule chain_fault [where p = c4 and F = "{''price'', ''delivery'', ''id'', ''type''}" and k = "''number''" and w' = u'])
       (rule f4, assumption, rule g4, rule that [unfolded c5_def])
  from assms o obtain w' where "c5 w = (Inl e, w')"
    by (cases "c5 w") auto
  from f5 [OF this] Ref show ?thesis
    by (auto simp: required_def)
next
  case Undefined
  with assms show ?thesis by (simp add: order_acc_eval)
next
  case Null
  with assms show ?thesis by (simp add: order_acc_eval)
next
  case (Boolean b)
  with assms show ?thesis by (simp add: order_acc_eval)
next
  case (Number n)
  with assms show ?thesis by (simp add: order_acc_eval)
next
  case (Str t)
  with assms show ?thesis by (simp add: order_acc_eval)
next
  case (BigInt i)
  with assms show ?thesis by (simp add: order_acc_eval)
next
  case (Symbol k)
  with assms show ?thesis by (simp add: order_acc_eval)
qed

lemma isString_dup_no_result: "isString_dup str w = Some r \<Longrightarrow> False"
  by (rule isString_dup.raw_induct [where P = "\<lambda>_ _ _. False"]) blast+

section \<open>The claims\<close>




text \<open>
  C2: the two copies of \<open>order\<close> disagree. The trailing copy accepts exactly the
  objects whose \<^verbatim>\<open>type\<close> and \<^verbatim>\<open>delivery\<close> are strings and whose \<^verbatim>\<open>id\<close> is a
  number. Hence every value of the declared shape \<^verbatim>\<open>UserOrder\<close>, whose \<^verbatim>\<open>id\<close> is a
  string, is accepted by the exported copy and rejected by the trailing one; and every
  value of that shape but for an \<^verbatim>\<open>id\<close> that is a number is rejected by the exported
  copy and accepted by the trailing one. The exported copy is the one that agrees with
  the declared shape.
\<close>

theorem order_copies_disagree:
  "(fst (order_dup obj w) = Inr True \<longleftrightarrow>
      (\<exists>a. obj = Ref a
          \<and> (cls (heap w a) = Plain \<or> cls (heap w a) = Array)
          \<and> field_kind w a (''type'', ''string'')
          \<and> field_kind w a (''id'', ''number'')
          \<and> field_kind w a (''delivery'', ''string'')))
   \<and> (conforms w obj UserOrder \<longrightarrow>
        fst (order obj w) = Inr True \<and> fst (order_dup obj w) = Inr False)
   \<and> (conforms w obj
         [(''id'', ''number''), (''type'', ''string''), (''price'', ''number''),
          (''quantity'', ''number''), (''delivery'', ''string'')] \<longrightarrow>
        fst (order obj w) = Inr False \<and> fst (order_dup obj w) = Inr True)"
proof -
  have cls: "\<And>c. c \<noteq> Function \<longleftrightarrow> c = Plain \<or> c = Array"
    by (case_tac c) auto
  show ?thesis
    unfolding order_eval order_dup_eval
    by (cases obj) (auto simp: UserOrder_def field_kind_def cls split: option.splits)
qed

theorem order_copies_disagree_witness:
  "conforms (world_with Plain full_order) (Ref 0) UserOrder
   \<and> fst (order (Ref 0) (world_with Plain full_order)) = Inr True
   \<and> fst (order_dup (Ref 0) (world_with Plain full_order)) = Inr False
   \<and> conforms (world_with Plain numeric_id_order) (Ref 0)
         [(''id'', ''number''), (''type'', ''string''), (''price'', ''number''),
          (''quantity'', ''number''), (''delivery'', ''string'')]
   \<and> fst (order (Ref 0) (world_with Plain numeric_id_order)) = Inr False
   \<and> fst (order_dup (Ref 0) (world_with Plain numeric_id_order)) = Inr True"
proof -
  have h1: "conforms (world_with Plain full_order) (Ref 0) UserOrder"
    by (simp add: UserOrder_def field_kind_def world_with_def full_order_def)
  have h2: "conforms (world_with Plain numeric_id_order) (Ref 0)
         [(''id'', ''number''), (''type'', ''string''), (''price'', ''number''),
          (''quantity'', ''number''), (''delivery'', ''string'')]"
    by (simp add: field_kind_def world_with_def full_order_def numeric_id_order_def)
  show ?thesis
    using h1 h2
      order_copies_disagree [of "Ref 0" "world_with Plain full_order"]
      order_copies_disagree [of "Ref 0" "world_with Plain numeric_id_order"]
    by simp
qed

text \<open>
  C3: on \<^verbatim>\<open>null\<close> the guards return false. No field of \<^verbatim>\<open>null\<close> is read: the read
  would be the fault of the last conjunct, and the result is a value.
\<close>

theorem order_null:
  "order Null w = (Inr False, w)
   \<and> isUser Null w = (Inr False, w)
   \<and> member Null f w = (Inl TypeError, w)"
  by (simp add: order_eval isUser_eval)







text \<open>
  C7, as stated, fails: the parameter of \<open>order\<close> is \<^verbatim>\<open>any\<close>, and on an object
  whose \<^verbatim>\<open>type\<close> is an accessor with a getter that throws, the read of
  \<^verbatim>\<open>obj.type\<close> ends the call with that exception.
\<close>

theorem order_getter_throws_counterexample:
  "fst (order_acc (Ref 0) throwing_order) = Inl (Thrown (Number 1))"
  by (simp add: order_acc_def and_then_def typeof_is_def not_null_def
        typeof_member_is_acc_def throwing_order_def with_getters_def world_with_def
        full_order_def run_def)

text \<open>
  C7, amended: on every candidate for which the reads of the required fields run no
  getter, \<open>order\<close> ends with a boolean and never with a fault, a rejection being the
  value false; likewise \<open>isUser\<close> when moreover its \<^verbatim>\<open>in\<close> tests run no trap. The
  guard raises no fault of its own: a fault that \<open>order\<close> ends with is the exception
  thrown by the getter of a required field of the candidate.
\<close>

theorem order_never_faults:
  "(no_getters w obj required \<longrightarrow> (\<exists>b. fst (order_acc obj w) = Inr b))
   \<and> (no_getters w obj user_fields \<and> no_traps w obj user_fields \<longrightarrow>
        (\<exists>b. fst (isUser_acc obj w) = Inr b))
   \<and> (fst (order_acc obj w) = Inl e \<longrightarrow>
        (\<exists>a f g. obj = Ref a \<and> f \<in> set required
            \<and> getters w a f = Some g \<and> outcome g = Inl e))"
proof (intro conjI impI)
  assume "fst (order_acc obj w) = Inl e"
  then show "\<exists>a f g. obj = Ref a \<and> f \<in> set required
      \<and> getters w a f = Some g \<and> outcome g = Inl e"
    by (rule order_acc_fault)
qed (simp_all add: order_acc_eval isUser_acc_eval)

theorem order_never_faults_witness:
  "no_getters noted_order (Ref 0) required
   \<and> fst (order_acc (Ref 0) noted_order) = Inr True
   \<and> no_getters plain_user (Ref 0) user_fields
   \<and> no_traps plain_user (Ref 0) user_fields
   \<and> fst (isUser_acc (Ref 0) plain_user) = Inr True
   \<and> fst (order_acc (Ref 0) throwing_order) = Inl (Thrown (Number 1))
   \<and> ''type'' \<in> set required
   \<and> map_option outcome (getters throwing_order 0 ''type'') = Some (Inl (Thrown (Number 1)))"
proof -
  have h1: "no_getters noted_order (Ref 0) required"
    by (simp add: noted_order_def with_getters_def required_def)
  have h2: "no_getters plain_user (Ref 0) user_fields"
    "no_traps plain_user (Ref 0) user_fields"
    by (simp_all add: plain_user_def with_getters_def user_fields_def)
  have h3: "fst (order_acc (Ref 0) throwing_order) = Inl (Thrown (Number 1))"
    by (simp add: order_acc_def and_then_def typeof_is_def not_null_def
          typeof_member_is_acc_def throwing_order_def with_getters_def world_with_def
          full_order_def run_def)
  have v1: "fst (order_acc (Ref 0) noted_order) = Inr True"
    by (simp add: order_acc_def and_then_def typeof_is_def not_null_def
          typeof_member_is_acc_def noted_order_def with_getters_def world_with_def
          full_order_def)
  have v2: "fst (isUser_acc (Ref 0) plain_user) = Inr True"
    by (simp add: isUser_acc_def and_then_def typeof_is_def not_null_def
          typeof_member_is_acc_def plain_user_def with_getters_def world_with_def
          full_user_def)
  have v3: "''type'' \<in> set required"
    "map_option outcome (getters throwing_order 0 ''type'') = Some (Inl (Thrown (Number 1)))"
    by (simp_all add: required_def throwing_order_def with_getters_def)
  show ?thesis
    using h1 h2 h3 v1 v2 v3
      order_never_faults [of noted_order "Ref 0" "Thrown (Number 1)"]
      order_never_faults [of plain_user "Ref 0" "Thrown (Number 1)"]
      order_never_faults [of throwing_order "Ref 0" "Thrown (Number 1)"]
    by simp
qed

text \<open>
  C8, as stated, fails: on an object whose \<^verbatim>\<open>type\<close> is an accessor with a getter
  that assigns to \<^verbatim>\<open>this.id\<close>, the read of \<^verbatim>\<open>obj.type\<close> changes the \<^verbatim>\<open>id\<close> of
  the candidate.
\<close>

theorem order_getter_writes_counterexample:
  "props (heap writing_order 0) ''id'' = Some (Str ''123'')
   \<and> props (heap (snd (order_acc (Ref 0) writing_order)) 0) ''id'' = Some (Number 5)"
  by (simp add: order_acc_def and_then_def typeof_is_def not_null_def
        typeof_member_is_acc_def writing_order_def with_getters_def world_with_def
        full_order_def run_def add_field_def)

text \<open>
  C8, amended: on every candidate for which the reads of the required fields run no
  getter, evaluating \<open>order\<close> leaves the state as it was: the store, hence every field
  of the candidate, and the rest of the state; likewise \<open>isUser\<close> when moreover its
  \<^verbatim>\<open>in\<close> tests run no trap. The guard assigns nothing itself; an accessor under a
  name it does not read is not run.
\<close>

theorem order_read_only:
  "(no_getters w obj required \<longrightarrow> snd (order_acc obj w) = w)
   \<and> (no_getters w obj user_fields \<and> no_traps w obj user_fields \<longrightarrow>
        snd (isUser_acc obj w) = w)"
  by (simp add: order_acc_eval isUser_acc_eval)

theorem order_read_only_witness:
  "no_getters noted_order (Ref 0) required
   \<and> getters noted_order 0 ''note'' \<noteq> None
   \<and> snd (order_acc (Ref 0) noted_order) = noted_order
   \<and> no_getters plain_user (Ref 0) user_fields
   \<and> no_traps plain_user (Ref 0) user_fields
   \<and> snd (isUser_acc (Ref 0) plain_user) = plain_user"
proof -
  have h1: "no_getters noted_order (Ref 0) required"
    by (simp add: noted_order_def with_getters_def required_def)
  have h2: "no_getters plain_user (Ref 0) user_fields"
    "no_traps plain_user (Ref 0) user_fields"
    by (simp_all add: plain_user_def with_getters_def user_fields_def)
  have h3: "getters noted_order 0 ''note'' \<noteq> None"
    by (simp add: noted_order_def with_getters_def)
  show ?thesis
    using h1 h2 h3
      order_read_only [of noted_order "Ref 0"]
      order_read_only [of plain_user "Ref 0"]
    by simp
qed



text \<open>
  C10: the \<^verbatim>\<open>isString\<close> of the trailing copy returns on no input, since its body is
  a call of itself with the same argument; the exported \<open>isString\<close> returns, on every
  input, whether \<^verbatim>\<open>typeof\<close> of the input is \<^verbatim>\<open>"string"\<close>.
\<close>

theorem isString_dup_diverges:
  "isString_dup str w = None
   \<and> isString str w = (Inr (typeof w str = ''string''), w)"
  using isString_dup_no_result [of str w]
  by (cases "isString_dup str w") (auto simp: isString_def typeof_is_def)

end
